theory Spec2Isabelle
  imports Complex_Main
begin

section \<open>Smart Food Analyzer: the functions of vision1.py\<close>

text \<open>
  Python strings are modelled as \<^typ>\<open>string\<close>. A character outside ASCII is written as
  the bytes of its UTF-8 encoding, so every literal of the source is the byte sequence
  that stands in the source file. Numbers of a nutrition record (Python ints and finite
  floats) are rationals: the only operations of the code on them are the truth test and
  the comparison with an integer constant, both exact.
\<close>

subsection \<open>Literals of the source\<close>

definition warning_sign :: string where
  "warning_sign = [CHR 0xE2, CHR 0x9A, CHR 0xA0, CHR 0xEF, CHR 0xB8, CHR 0x8F]"

definition candy :: string where
  "candy = [CHR 0xF0, CHR 0x9F, CHR 0x8D, CHR 0xAC]"

definition salt :: string where
  "salt = [CHR 0xF0, CHR 0x9F, CHR 0xA7, CHR 0x82]"

definition flexed_biceps :: string where
  "flexed_biceps = [CHR 0xF0, CHR 0x9F, CHR 0x92, CHR 0xAA]"

definition high_voltage :: string where
  "high_voltage = [CHR 0xE2, CHR 0x9A, CHR 0xA1]"

definition anatomical_heart :: string where
  "anatomical_heart = [CHR 0xF0, CHR 0x9F, CHR 0xAB, CHR 0x80]"

definition banana :: string where
  "banana = [CHR 0xF0, CHR 0x9F, CHR 0x8D, CHR 0x8C]"

definition baguette :: string where
  "baguette = [CHR 0xF0, CHR 0x9F, CHR 0xA5, CHR 0x96]"

definition check_mark :: string where
  "check_mark = [CHR 0xE2, CHR 0x9C, CHR 0x85]"

definition em_dash :: string where
  "em_dash = [CHR 0xE2, CHR 0x80, CHR 0x94]"

definition msg_calories :: string where
  "msg_calories = warning_sign @ '' High in calories.''"

definition aug_weight_loss :: string where
  "aug_weight_loss = '' Try to limit this if you're trying to lose weight.''"

definition msg_sweetness :: string where
  "msg_sweetness = candy @ '' High sweetness level.''"

definition aug_diabetes :: string where
  "aug_diabetes = '' This may spike blood sugar '' @ em_dash @ '' go for lower glycemic index foods.''"

definition aug_moderately :: string where
  "aug_moderately = '' Consume moderately to avoid sugar crashes.''"

definition msg_sodium :: string where
  "msg_sodium = salt @ '' Very salty!''"

definition aug_high_bp :: string where
  "aug_high_bp = '' High sodium may increase blood pressure '' @ em_dash @ '' consider low-sodium alternatives.''"

definition msg_protein :: string where
  "msg_protein = flexed_biceps @ '' Good protein source '' @ em_dash @ '' helpful for muscle maintenance.''"

definition msg_fat :: string where
  "msg_fat = high_voltage @ '' High in fat '' @ em_dash @ '' consume moderately if aiming for weight control.''"

definition msg_cholesterol :: string where
  "msg_cholesterol = anatomical_heart @ '' High cholesterol content '' @ em_dash @ '' reduce intake for heart health.''"

definition msg_potassium :: string where
  "msg_potassium = banana @ '' Good potassium source '' @ em_dash @ '' helps with muscle function and blood pressure regulation.''"

definition msg_carbs :: string where
  "msg_carbs = baguette @ '' High in carbs '' @ em_dash @ '' if you're watching carbs (e.g., keto diet), consider alternatives.''"

definition msg_balanced :: string where
  "msg_balanced = check_mark @ '' Balanced food. Looks like a healthy option!''"

subsection \<open>Dictionaries of give\_recommendations\<close>

text \<open>
  The nutrition dictionary maps a field name to a number or to Python's \<open>None\<close>
  (\<^term>\<open>None :: rat option\<close>); a key may also be missing. The health-goal dictionary maps
  a flag name to a Boolean.
\<close>

type_synonym nutrition = "string \<rightharpoonup> rat option"
type_synonym health_goals = "string \<rightharpoonup> bool"

definition dict_get :: "nutrition \<Rightarrow> string \<Rightarrow> rat option" where
  \<comment> \<open>\<open>nutrition.get(k)\<close>: \<open>None\<close> for a missing key.\<close>
  "dict_get d k = (case d k of None \<Rightarrow> None | Some v \<Rightarrow> v)"

definition truthy :: "rat \<Rightarrow> bool" where
  \<comment> \<open>Python's truth test of a number.\<close>
  "truthy x = (x \<noteq> 0)"

definition or_zero :: "rat option \<Rightarrow> rat" where
  \<comment> \<open>\<open>v or 0\<close>: \<open>None\<close> and zero are falsy.\<close>
  "or_zero v = (case v of None \<Rightarrow> 0 | Some x \<Rightarrow> if truthy x then x else 0)"

definition flag :: "health_goals \<Rightarrow> string \<Rightarrow> bool" where
  \<comment> \<open>the truth value of \<open>health_goals.get(k)\<close>: a missing key gives \<open>None\<close>, falsy.\<close>
  "flag g k = (case g k of None \<Rightarrow> False | Some b \<Rightarrow> b)"

definition goals_or_empty :: "health_goals option \<Rightarrow> health_goals" where
  \<comment> \<open>\<open>health_goals or {}\<close>, the argument defaulting to \<open>None\<close>.\<close>
  "goals_or_empty h = (case h of None \<Rightarrow> Map.empty | Some g \<Rightarrow> g)"

subsection \<open>give\_recommendations\<close>

definition give_recommendations :: "nutrition \<Rightarrow> health_goals option \<Rightarrow> string list" where
  "give_recommendations nutrition health_goals =
    (let advice = [];
         health_goals = goals_or_empty health_goals;
         calories = or_zero (dict_get nutrition ''Calories'');
         sweetness = or_zero (dict_get nutrition ''Sweetness (g)'');
         sodium = or_zero (dict_get nutrition ''Sodium (mg)'');
         protein = or_zero (dict_get nutrition ''Proteins (g)'');
         fat = or_zero (dict_get nutrition ''Total Fat (g)'');
         cholesterol = or_zero (dict_get nutrition ''Cholesterol (mg)'');
         potassium = or_zero (dict_get nutrition ''Potassium (mg)'');
         carbs = or_zero (dict_get nutrition ''Total Carbohydrates (g)'');
         advice = (if calories > 500
                   then (let msg = msg_calories;
                             msg = (if flag health_goals ''weight_loss''
                                    then msg @ aug_weight_loss else msg)
                         in advice @ [msg])
                   else advice);
         advice = (if sweetness > 20
                   then (let msg = msg_sweetness;
                             msg = (if flag health_goals ''diabetes''
                                    then msg @ aug_diabetes else msg @ aug_moderately)
                         in advice @ [msg])
                   else advice);
         advice = (if sodium > 1500
                   then (let msg = msg_sodium;
                             msg = (if flag health_goals ''high_bp''
                                    then msg @ aug_high_bp else msg)
                         in advice @ [msg])
                   else advice);
         advice = (if protein > 15 then advice @ [msg_protein] else advice);
         advice = (if fat > 20 then advice @ [msg_fat] else advice);
         advice = (if cholesterol > 200 then advice @ [msg_cholesterol] else advice);
         advice = (if truthy potassium \<and> potassium > 400
                   then advice @ [msg_potassium] else advice);
         advice = (if carbs > 50 then advice @ [msg_carbs] else advice);
         advice = (if advice = [] then advice @ [msg_balanced] else advice)
     in advice)"

text \<open>
  The variant of the function in which the potassium rule has the shape of the other
  seven rules, a plain strict comparison. It differs from \<open>give_recommendations\<close> in the
  potassium condition only.
\<close>

definition give_recommendations_uniform :: "nutrition \<Rightarrow> health_goals option \<Rightarrow> string list" where
  "give_recommendations_uniform nutrition health_goals =
    (let advice = [];
         health_goals = goals_or_empty health_goals;
         calories = or_zero (dict_get nutrition ''Calories'');
         sweetness = or_zero (dict_get nutrition ''Sweetness (g)'');
         sodium = or_zero (dict_get nutrition ''Sodium (mg)'');
         protein = or_zero (dict_get nutrition ''Proteins (g)'');
         fat = or_zero (dict_get nutrition ''Total Fat (g)'');
         cholesterol = or_zero (dict_get nutrition ''Cholesterol (mg)'');
         potassium = or_zero (dict_get nutrition ''Potassium (mg)'');
         carbs = or_zero (dict_get nutrition ''Total Carbohydrates (g)'');
         advice = (if calories > 500
                   then (let msg = msg_calories;
                             msg = (if flag health_goals ''weight_loss''
                                    then msg @ aug_weight_loss else msg)
                         in advice @ [msg])
                   else advice);
         advice = (if sweetness > 20
                   then (let msg = msg_sweetness;
                             msg = (if flag health_goals ''diabetes''
                                    then msg @ aug_diabetes else msg @ aug_moderately)
                         in advice @ [msg])
                   else advice);
         advice = (if sodium > 1500
                   then (let msg = msg_sodium;
                             msg = (if flag health_goals ''high_bp''
                                    then msg @ aug_high_bp else msg)
                         in advice @ [msg])
                   else advice);
         advice = (if protein > 15 then advice @ [msg_protein] else advice);
         advice = (if fat > 20 then advice @ [msg_fat] else advice);
         advice = (if cholesterol > 200 then advice @ [msg_cholesterol] else advice);
         advice = (if potassium > 400 then advice @ [msg_potassium] else advice);
         advice = (if carbs > 50 then advice @ [msg_carbs] else advice);
         advice = (if advice = [] then advice @ [msg_balanced] else advice)
     in advice)"

text \<open>
  The eight conditions of the function, in the order of its \<open>if\<close> statements, and the
  message each rule appends under the given flags.
\<close>

definition rule_conditions :: "nutrition \<Rightarrow> bool list" where
  "rule_conditions n =
    [or_zero (dict_get n ''Calories'') > 500,
     or_zero (dict_get n ''Sweetness (g)'') > 20,
     or_zero (dict_get n ''Sodium (mg)'') > 1500,
     or_zero (dict_get n ''Proteins (g)'') > 15,
     or_zero (dict_get n ''Total Fat (g)'') > 20,
     or_zero (dict_get n ''Cholesterol (mg)'') > 200,
     truthy (or_zero (dict_get n ''Potassium (mg)'')) \<and> or_zero (dict_get n ''Potassium (mg)'') > 400,
     or_zero (dict_get n ''Total Carbohydrates (g)'') > 50]"

definition rule_messages :: "health_goals option \<Rightarrow> string list" where
  "rule_messages h =
    [if flag (goals_or_empty h) ''weight_loss'' then msg_calories @ aug_weight_loss else msg_calories,
     if flag (goals_or_empty h) ''diabetes'' then msg_sweetness @ aug_diabetes
     else msg_sweetness @ aug_moderately,
     if flag (goals_or_empty h) ''high_bp'' then msg_sodium @ aug_high_bp else msg_sodium,
     msg_protein, msg_fat, msg_cholesterol, msg_potassium, msg_carbs]"

definition advise :: "bool list \<Rightarrow> string list \<Rightarrow> string list" where
  \<comment> \<open>the messages of the rules whose condition holds, or the fallback when there is none\<close>
  "advise cs ms = (let fired = map snd (filter fst (zip cs ms))
                   in if fired = [] then [msg_balanced] else fired)"

definition silent :: "string list \<Rightarrow> string list \<Rightarrow> bool" where
  \<comment> \<open>none of the messages \<open>ms\<close> occurs in the advice\<close>
  "silent ms advice = (set ms \<inter> set advice = {})"

subsection \<open>Inputs of the scenarios\<close>

definition scenario :: nutrition where
  "scenario = [''Calories'' \<mapsto> Some 600, ''Sweetness (g)'' \<mapsto> Some 25,
     ''Sodium (mg)'' \<mapsto> Some 1600, ''Proteins (g)'' \<mapsto> Some 5, ''Total Fat (g)'' \<mapsto> Some 10,
     ''Cholesterol (mg)'' \<mapsto> Some 50, ''Potassium (mg)'' \<mapsto> Some 100,
     ''Total Carbohydrates (g)'' \<mapsto> Some 20]"

definition all_goals :: health_goals where
  "all_goals = [''diabetes'' \<mapsto> True, ''weight_loss'' \<mapsto> True, ''high_bp'' \<mapsto> True]"

definition no_goals :: health_goals where
  "no_goals = [''diabetes'' \<mapsto> False, ''weight_loss'' \<mapsto> False, ''high_bp'' \<mapsto> False]"

definition at_thresholds :: nutrition where
  \<comment> \<open>six fields on their thresholds, potassium \<open>None\<close>, carbohydrates missing\<close>
  "at_thresholds = [''Calories'' \<mapsto> Some 500, ''Sweetness (g)'' \<mapsto> Some 20,
     ''Sodium (mg)'' \<mapsto> Some 1500, ''Proteins (g)'' \<mapsto> Some 15, ''Total Fat (g)'' \<mapsto> Some 20,
     ''Cholesterol (mg)'' \<mapsto> Some 200, ''Potassium (mg)'' \<mapsto> None]"

definition protein_only :: nutrition where
  "protein_only = [''Calories'' \<mapsto> Some 120, ''Proteins (g)'' \<mapsto> Some 22]"

subsection \<open>extract\_health\_goals\<close>

text \<open>
  Prompts are ASCII text: \<open>lower\<close> maps the letters A to Z to a to z and leaves every
  other character as it is. \<open>str_in sub s\<close> is Python's \<open>sub in s\<close> on strings.
\<close>

definition lower_char :: "char \<Rightarrow> char" where
  "lower_char c =
     (case map_of (zip ''ABCDEFGHIJKLMNOPQRSTUVWXYZ'' ''abcdefghijklmnopqrstuvwxyz'') c of
        None \<Rightarrow> c | Some d \<Rightarrow> d)"

definition lower :: "string \<Rightarrow> string" where
  "lower s = map lower_char s"

fun starts_with :: "string \<Rightarrow> string \<Rightarrow> bool" where
  "starts_with s [] = True"
| "starts_with [] (p # ps) = False"
| "starts_with (c # cs) (p # ps) = (c = p \<and> starts_with cs ps)"

fun str_in :: "string \<Rightarrow> string \<Rightarrow> bool" where
  "str_in sub [] = (sub = [])"
| "str_in sub (c # cs) = (starts_with (c # cs) sub \<or> str_in sub cs)"

definition extract_health_goals :: "string \<Rightarrow> health_goals" where
  "extract_health_goals prompt =
    (let prompt = lower prompt
     in [''diabetes'' \<mapsto> str_in ''diabetes'' prompt,
         ''weight_loss'' \<mapsto> str_in ''weight loss'' prompt \<or> str_in ''losing weight'' prompt,
         ''high_bp'' \<mapsto> str_in ''blood pressure'' prompt \<or> str_in ''bp'' prompt
                          \<or> str_in ''hypertension'' prompt])"

text \<open>
  Matching without regard to case, stated on character codes and not through \<open>lower\<close>:
  \<open>lowers_to c k\<close> says that \<open>k\<close> is the lower-case form of \<open>c\<close>, the letters A to Z having
  the codes 65 to 90 and their lower-case forms the codes 32 higher; a keyword occurs in
  a text when some substring of the text has the keyword as its lower-case form.
\<close>

definition lowers_to :: "char \<Rightarrow> char \<Rightarrow> bool" where
  "lowers_to c k =
     (if of_char c \<in> {65..90::nat} then of_char k = of_char c + (32::nat) else k = c)"

definition occurs_ignoring_case :: "string \<Rightarrow> string \<Rightarrow> bool" where
  "occurs_ignoring_case keyword text =
     (\<exists>u w v. text = u @ w @ v \<and> list_all2 lowers_to w keyword)"

subsection \<open>get\_nutrition\_info\<close>

text \<open>
  The HTTP exchange with the nutrition service is a parameter: \<open>post\<close> gives, for a query,
  the response that \<open>requests.post\<close> returns, a status code and a body, which
  \<open>response.json()\<close> parses (\<open>None\<close> for a body that is not JSON). A JSON object is the
  list of the items of the parsed dictionary, its keys distinct. What Python raises is a
  value of \<open>error\<close>. The method \<open>str.title\<close> of Python is a parameter too.
\<close>

datatype json =
    JNull
  | JBool bool
  | JNum rat
  | JStr string
  | JArr "json list"
  | JObj "(string \<times> json) list"

datatype error = JSONDecodeError | TypeError | KeyError | IndexError | AttributeError

record response =
  status_code :: int
  json_body :: "json option"

fun contains_key :: "string \<Rightarrow> json \<Rightarrow> error + bool" where
  \<comment> \<open>\<open>k in data\<close>\<close>
  "contains_key k (JObj items) = Inr (k \<in> set (map fst items))"
| "contains_key k (JArr xs) = Inr (JStr k \<in> set xs)"
| "contains_key k (JStr s) = Inr (str_in k s)"
| "contains_key k _ = Inl TypeError"

fun getitem_key :: "json \<Rightarrow> string \<Rightarrow> error + json" where
  \<comment> \<open>\<open>data[k]\<close> for a string \<open>k\<close>\<close>
  "getitem_key (JObj items) k = (case map_of items k of None \<Rightarrow> Inl KeyError | Some v \<Rightarrow> Inr v)"
| "getitem_key _ k = Inl TypeError"

fun getitem_0 :: "json \<Rightarrow> error + json" where
  \<comment> \<open>\<open>x[0]\<close>\<close>
  "getitem_0 (JArr []) = Inl IndexError"
| "getitem_0 (JArr (x # xs)) = Inr x"
| "getitem_0 (JStr []) = Inl IndexError"
| "getitem_0 (JStr (c # cs)) = Inr (JStr [c])"
| "getitem_0 (JObj items) = Inl KeyError"
| "getitem_0 _ = Inl TypeError"

definition items_get :: "(string \<times> json) list \<Rightarrow> string \<Rightarrow> json" where
  \<comment> \<open>\<open>d.get(k)\<close> on a dictionary\<close>
  "items_get items k = (case map_of items k of None \<Rightarrow> JNull | Some v \<Rightarrow> v)"

fun json_truthy :: "json \<Rightarrow> bool" where
  "json_truthy JNull = False"
| "json_truthy (JBool b) = b"
| "json_truthy (JNum x) = (x \<noteq> 0)"
| "json_truthy (JStr s) = (s \<noteq> [])"
| "json_truthy (JArr xs) = (xs \<noteq> [])"
| "json_truthy (JObj items) = (items \<noteq> [])"

definition json_or_zero :: "json \<Rightarrow> json" where
  \<comment> \<open>\<open>v or 0\<close>\<close>
  "json_or_zero v = (if json_truthy v then v else JNum 0)"

definition get_nutrition_info ::
    "(string \<Rightarrow> response) \<Rightarrow> (string \<Rightarrow> string) \<Rightarrow> string \<Rightarrow>
     error + (string \<times> json) list option" where
  "get_nutrition_info post title food_name =
    (let response = post food_name
     in if status_code response = 200 then
          (case json_body response of
             None \<Rightarrow> Inl JSONDecodeError
           | Some data \<Rightarrow>
              (case contains_key ''foods'' data of
                 Inl e \<Rightarrow> Inl e
               | Inr False \<Rightarrow> Inr None
               | Inr True \<Rightarrow>
                  (case getitem_key data ''foods'' of
                     Inl e \<Rightarrow> Inl e
                   | Inr foods \<Rightarrow>
                      (case getitem_0 foods of
                         Inl e \<Rightarrow> Inl e
                       | Inr (JObj nutrition) \<Rightarrow>
                          (case map_of nutrition ''food_name'' of
                             None \<Rightarrow> Inl KeyError
                           | Some (JStr name) \<Rightarrow>
                               Inr (Some
                                 [(''Food'', JStr (title name)),
                                  (''Calories'', items_get nutrition ''nf_calories''),
                                  (''Proteins (g)'', items_get nutrition ''nf_protein''),
                                  (''Sweetness (g)'', json_or_zero (items_get nutrition ''nf_sugars'')),
                                  (''Sodium (mg)'', items_get nutrition ''nf_sodium''),
                                  (''Total Fat (g)'', items_get nutrition ''nf_total_fat''),
                                  (''Cholesterol (mg)'', items_get nutrition ''nf_cholesterol''),
                                  (''Potassium (mg)'', items_get nutrition ''nf_potassium''),
                                  (''Total Carbohydrates (g)'',
                                     items_get nutrition ''nf_total_carbohydrate'')])
                           | Some _ \<Rightarrow> Inl AttributeError)
                       | Inr _ \<Rightarrow> Inl TypeError))))
        else Inr None)"

definition no_foods_response :: "string \<Rightarrow> response" where
  \<comment> \<open>status 200 with the body \<open>{"foods": []}\<close>\<close>
  "no_foods_response query = \<lparr>status_code = 200, json_body = Some (JObj [(''foods'', JArr [])])\<rparr>"

definition apple_response :: "string \<Rightarrow> response" where
  "apple_response query = \<lparr>status_code = 200, json_body = Some (JObj [(''foods'',
     JArr [JObj [(''food_name'', JStr ''apple pie''), (''nf_calories'', JNum 265),
                 (''nf_sugars'', JNull), (''nf_sodium'', JNum 327)]])])\<rparr>"

subsection \<open>analyze\_sentiment\<close>

text \<open>
  The polarity score of TextBlob is a parameter: \<open>polarity_of\<close> gives the score of a
  text, a number between -1 and 1.
\<close>

definition smiling_face :: string where
  "smiling_face = [CHR 0xF0, CHR 0x9F, CHR 0x98, CHR 0x8A]"

definition pensive_face :: string where
  "pensive_face = [CHR 0xF0, CHR 0x9F, CHR 0x98, CHR 0x94]"

definition neutral_face :: string where
  "neutral_face = [CHR 0xF0, CHR 0x9F, CHR 0x98, CHR 0x90]"

definition label_positive :: string where
  "label_positive = smiling_face @ '' Positive''"

definition label_negative :: string where
  "label_negative = pensive_face @ '' Negative''"

definition label_neutral :: string where
  "label_neutral = neutral_face @ '' Neutral''"

definition analyze_sentiment :: "(string \<Rightarrow> rat) \<Rightarrow> string \<Rightarrow> string" where
  "analyze_sentiment polarity_of comment =
    (let polarity = polarity_of comment
     in if polarity > 0 then label_positive
        else if polarity < 0 then label_negative
        else label_neutral)"

subsection \<open>The feedback file\<close>

text \<open>
  A data frame is its column names and its rows, each row the cells under the columns in
  order; the row index is not modelled, since \<open>ignore_index=True\<close> renumbers it and
  \<open>index=False\<close> keeps it out of the file. A cell that a row does not have reads as NaN.
  The file \<open>feedback.csv\<close> is \<open>None\<close> while it does not exist; \<open>to_csv\<close> and \<open>read_csv\<close>,
  the writer and the reader of pandas, are parameters.
\<close>

datatype cell = CStr string | CInt int | CNaN

record dataframe =
  columns :: "string list"
  rows :: "cell list list"

definition cell_at :: "string list \<Rightarrow> cell list \<Rightarrow> string \<Rightarrow> cell" where
  \<comment> \<open>the cell of a row under a column\<close>
  "cell_at cols row c = (case map_of (zip cols row) c of None \<Rightarrow> CNaN | Some v \<Rightarrow> v)"

definition reindex :: "string list \<Rightarrow> string list \<Rightarrow> cell list \<Rightarrow> cell list" where
  \<comment> \<open>a row laid out under new columns, NaN where it has no cell\<close>
  "reindex cols cols' row = map (cell_at cols row) cols'"

definition concat_frames :: "dataframe \<Rightarrow> dataframe \<Rightarrow> dataframe" where
  \<comment> \<open>\<open>pd.concat([a, b], ignore_index=True)\<close>: the union of the columns in order of first
      appearance, the rows of \<open>a\<close> followed by the rows of \<open>b\<close>\<close>
  "concat_frames a b =
    (let cols = columns a @ filter (\<lambda>c. c \<notin> set (columns a)) (columns b)
     in \<lparr>columns = cols,
         rows = map (reindex (columns a) cols) (rows a) @ map (reindex (columns b) cols) (rows b)\<rparr>)"

definition schema :: "string list" where
  "schema = [''Name'', ''Age'', ''Satisfaction'', ''Comment'', ''Sentiment'']"

definition save_feedback ::
    "('f \<Rightarrow> dataframe) \<Rightarrow> (dataframe \<Rightarrow> 'f) \<Rightarrow> (string \<Rightarrow> rat) \<Rightarrow>
     'f option \<Rightarrow> string \<Rightarrow> int \<Rightarrow> int \<Rightarrow> string \<Rightarrow> 'f option" where
  "save_feedback read_csv to_csv polarity_of feedback_file user_name user_age satisfaction comment =
    (let sentiment = analyze_sentiment polarity_of comment;
         new_feedback = \<lparr>columns = [''Name'', ''Age'', ''Satisfaction'', ''Comment'', ''Sentiment''],
                         rows = [[CStr user_name, CInt user_age, CInt satisfaction, CStr comment,
                                  CStr sentiment]]\<rparr>;
         all_feedback = (case feedback_file of
                           Some file \<Rightarrow> (let existing = read_csv file
                                         in concat_frames existing new_feedback)
                         | None \<Rightarrow> new_feedback)
     in Some (to_csv all_feedback))"

definition getitem_column :: "dataframe \<Rightarrow> string \<Rightarrow> error + cell list" where
  \<comment> \<open>\<open>df[c]\<close>\<close>
  "getitem_column df c =
    (if c \<in> set (columns df) then Inr (map (\<lambda>row. cell_at (columns df) row c) (rows df))
     else Inl KeyError)"

definition value_counts :: "cell list \<Rightarrow> (cell \<rightharpoonup> nat)" where
  \<comment> \<open>the number of occurrences of each value that occurs, NaN left out\<close>
  "value_counts xs = (\<lambda>v. if v \<noteq> CNaN \<and> v \<in> set xs then Some (count_list xs v) else None)"

definition show_sentiment_graph ::
    "('f \<Rightarrow> dataframe) \<Rightarrow> 'f option \<Rightarrow> error + (cell \<rightharpoonup> nat) option" where
  \<comment> \<open>the counts handed to the pie chart, \<open>None\<close> when the notice "No feedback available
      yet" is shown instead\<close>
  "show_sentiment_graph read_csv feedback_file =
    (case feedback_file of
       Some file \<Rightarrow>
         (let feedback = read_csv file
          in case getitem_column feedback ''Sentiment'' of
               Inl e \<Rightarrow> Inl e
             | Inr sentiment \<Rightarrow> Inr (Some (value_counts sentiment)))
     | None \<Rightarrow> Inr None)"

definition count_of :: "(cell \<rightharpoonup> nat) option \<Rightarrow> cell \<Rightarrow> nat" where
  \<comment> \<open>the count of a category in an aggregate; a category without an entry counts 0\<close>
  "count_of counts v =
    (case counts of None \<Rightarrow> 0 | Some m \<Rightarrow> (case m v of None \<Rightarrow> 0 | Some k \<Rightarrow> k))"

record submission =
  sub_name :: string
  sub_age :: int
  sub_satisfaction :: int
  sub_comment :: string

definition feedback_row :: "(string \<Rightarrow> rat) \<Rightarrow> submission \<Rightarrow> cell list" where
  \<comment> \<open>the entry that a submission persists\<close>
  "feedback_row polarity_of s =
    [CStr (sub_name s), CInt (sub_age s), CInt (sub_satisfaction s), CStr (sub_comment s),
     CStr (analyze_sentiment polarity_of (sub_comment s))]"


definition toy_polarity :: "string \<Rightarrow> rat" where
  "toy_polarity text = (if str_in ''good'' text then 1 / 2 else if str_in ''bad'' text then - 1 / 2 else 0)"

definition alice :: submission where
  "alice = \<lparr>sub_name = ''Alice'', sub_age = 30, sub_satisfaction = 9, sub_comment = ''good app''\<rparr>"


definition alice_frame :: dataframe where
  \<comment> \<open>the table of a file that holds the entry of \<open>alice\<close>\<close>
  "alice_frame = \<lparr>columns = schema, rows = [feedback_row toy_polarity alice]\<rparr>"


definition labelled :: "dataframe \<Rightarrow> bool" where
  \<comment> \<open>the table has a Sentiment column and each of its cells is one of the three labels
      or NaN\<close>
  "labelled df =
    (case getitem_column df ''Sentiment'' of
       Inl e \<Rightarrow> False
     | Inr cells \<Rightarrow>
         list_all (\<lambda>c. c \<in> set [CNaN, CStr label_positive, CStr label_negative, CStr label_neutral])
           cells)"

text \<open>
  A reader with the missing-value markers of pandas. \<open>read_csv\<close> is called without
  arguments, so a cell whose text is one of the default markers is read as NaN; the
  markers below are those common to the versions of pandas. \<open>read_csv_na\<close> does this
  to a table kept as it was written (\<open>to_csv_cells\<close>) and nothing else: the inference
  of numbers by the reader is left out.
\<close>

definition default_na_values :: "string list" where
  "default_na_values =
    [[], ''#N/A'', ''#N/A N/A'', ''#NA'', ''-1.#IND'', ''-1.#QNAN'', ''-NaN'', ''-nan'',
     ''1.#IND'', ''1.#QNAN'', ''<NA>'', ''N/A'', ''NA'', ''NULL'', ''NaN'', ''n/a'', ''nan'',
     ''null'']"

definition read_cell_na :: "cell \<Rightarrow> cell" where
  "read_cell_na c =
    (case c of CStr s \<Rightarrow> if s \<in> set default_na_values then CNaN else CStr s | _ \<Rightarrow> c)"

definition to_csv_cells :: "dataframe \<Rightarrow> dataframe" where
  "to_csv_cells df = df"

definition read_csv_na :: "dataframe \<Rightarrow> dataframe" where
  "read_csv_na written =
    \<lparr>columns = columns written, rows = map (map read_cell_na) (rows written)\<rparr>"

definition na_submission :: submission where
  "na_submission =
    \<lparr>sub_name = ''NA'', sub_age = 25, sub_satisfaction = 7, sub_comment = ''good app''\<rparr>"

definition na_frame :: dataframe where
  \<comment> \<open>the table written for the entry of \<open>na_submission\<close>\<close>
  "na_frame = \<lparr>columns = schema, rows = [feedback_row toy_polarity na_submission]\<rparr>"

section \<open>Properties of give\_recommendations\<close>

lemmas emoji_defs =
  warning_sign_def candy_def salt_def flexed_biceps_def high_voltage_def
  anatomical_heart_def banana_def baguette_def check_mark_def em_dash_def

lemmas msg_defs =
  msg_calories_def aug_weight_loss_def msg_sweetness_def aug_diabetes_def
  aug_moderately_def msg_sodium_def aug_high_bp_def msg_protein_def msg_fat_def
  msg_cholesterol_def msg_potassium_def msg_carbs_def msg_balanced_def

lemma or_zero_simps: "or_zero None = 0" "or_zero (Some x) = x"
  by (simp_all add: or_zero_def truthy_def)

lemma append_if: "(if c then xs @ [m] else xs) = xs @ (if c then [m] else [])"
  by simp

lemma fired_Cons:
  "map snd (filter fst (zip (c # cs) (m # ms))) =
     (if c then [m] else []) @ map snd (filter fst (zip cs ms))"
  by simp

lemma fired_Nil: "map snd (filter fst (zip [] ms)) = []"
  by simp

text \<open>
  The function is \<open>advise\<close> on its eight conditions and their messages: the chain of
  appends builds the list of the messages whose condition holds, in rule order.
\<close>

lemma give_recommendations_advise:
  "give_recommendations n h = advise (rule_conditions n) (rule_messages h)"
  unfolding give_recommendations_def rule_conditions_def rule_messages_def advise_def
    Let_def fired_Cons fired_Nil append_if
  by (simp del: append_is_Nil_conv Nil_is_append_conv)

lemma set_advise8:
  "set (advise [c0, c1, c2, c3, c4, c5, c6, c7] [m0, m1, m2, m3, m4, m5, m6, m7]) =
     (if c0 then {m0} else {}) \<union> (if c1 then {m1} else {}) \<union> (if c2 then {m2} else {}) \<union>
     (if c3 then {m3} else {}) \<union> (if c4 then {m4} else {}) \<union> (if c5 then {m5} else {}) \<union>
     (if c6 then {m6} else {}) \<union> (if c7 then {m7} else {}) \<union>
     (if \<not> (c0 \<or> c1 \<or> c2 \<or> c3 \<or> c4 \<or> c5 \<or> c6 \<or> c7) then {msg_balanced} else {})"
proof -
  have fired: "map snd (filter fst (zip [c0, c1, c2, c3, c4, c5, c6, c7]
        [m0, m1, m2, m3, m4, m5, m6, m7])) =
      (if c0 then [m0] else []) @ (if c1 then [m1] else []) @ (if c2 then [m2] else []) @
      (if c3 then [m3] else []) @ (if c4 then [m4] else []) @ (if c5 then [m5] else []) @
      (if c6 then [m6] else []) @ (if c7 then [m7] else [])" (is "_ = ?r")
    unfolding fired_Cons fired_Nil by simp
  have nil: "(?r = []) = (\<not> (c0 \<or> c1 \<or> c2 \<or> c3 \<or> c4 \<or> c5 \<or> c6 \<or> c7))"
    by simp
  have st: "set ?r =
     (if c0 then {m0} else {}) \<union> (if c1 then {m1} else {}) \<union> (if c2 then {m2} else {}) \<union>
     (if c3 then {m3} else {}) \<union> (if c4 then {m4} else {}) \<union> (if c5 then {m5} else {}) \<union>
     (if c6 then {m6} else {}) \<union> (if c7 then {m7} else {})"
    by (simp only: set_append if_distrib[of set] list.set Un_assoc)
  show ?thesis
  proof (cases "?r = []")
    case True
    then show ?thesis unfolding advise_def Let_def fired using nil by auto
  next
    case False
    then show ?thesis unfolding advise_def Let_def fired st[symmetric] using nil by auto
  qed
qed

lemma mem_if_single: "x \<in> (if c then {m} else {}) \<longleftrightarrow> c \<and> x = m"
  by simp

lemma mem_give_recommendations:
  "m \<in> set (give_recommendations n h) \<longleftrightarrow>
     (or_zero (dict_get n ''Calories'') > 500 \<and>
        m = (if flag (goals_or_empty h) ''weight_loss'' then msg_calories @ aug_weight_loss
             else msg_calories)) \<or>
     (or_zero (dict_get n ''Sweetness (g)'') > 20 \<and>
        m = (if flag (goals_or_empty h) ''diabetes'' then msg_sweetness @ aug_diabetes
             else msg_sweetness @ aug_moderately)) \<or>
     (or_zero (dict_get n ''Sodium (mg)'') > 1500 \<and>
        m = (if flag (goals_or_empty h) ''high_bp'' then msg_sodium @ aug_high_bp
             else msg_sodium)) \<or>
     (or_zero (dict_get n ''Proteins (g)'') > 15 \<and> m = msg_protein) \<or>
     (or_zero (dict_get n ''Total Fat (g)'') > 20 \<and> m = msg_fat) \<or>
     (or_zero (dict_get n ''Cholesterol (mg)'') > 200 \<and> m = msg_cholesterol) \<or>
     ((truthy (or_zero (dict_get n ''Potassium (mg)'')) \<and>
         or_zero (dict_get n ''Potassium (mg)'') > 400) \<and> m = msg_potassium) \<or>
     (or_zero (dict_get n ''Total Carbohydrates (g)'') > 50 \<and> m = msg_carbs) \<or>
     (\<not> (or_zero (dict_get n ''Calories'') > 500 \<or> or_zero (dict_get n ''Sweetness (g)'') > 20 \<or>
         or_zero (dict_get n ''Sodium (mg)'') > 1500 \<or> or_zero (dict_get n ''Proteins (g)'') > 15 \<or>
         or_zero (dict_get n ''Total Fat (g)'') > 20 \<or>
         or_zero (dict_get n ''Cholesterol (mg)'') > 200 \<or>
         (truthy (or_zero (dict_get n ''Potassium (mg)'')) \<and>
            or_zero (dict_get n ''Potassium (mg)'') > 400) \<or>
         or_zero (dict_get n ''Total Carbohydrates (g)'') > 50) \<and> m = msg_balanced)"
  unfolding give_recommendations_advise rule_conditions_def rule_messages_def set_advise8
  by (simp only: Un_iff mem_if_single disj_assoc)

text \<open>The twelve strings that the function can append are pairwise different.\<close>

lemma messages_distinct:
  "distinct [msg_calories, msg_calories @ aug_weight_loss, msg_sweetness @ aug_diabetes,
     msg_sweetness @ aug_moderately, msg_sodium, msg_sodium @ aug_high_bp, msg_protein,
     msg_fat, msg_cholesterol, msg_potassium, msg_carbs, msg_balanced]"
  by (simp add: msg_defs emoji_defs)

lemma messages_distinct_rev:
  "distinct [msg_balanced, msg_carbs, msg_potassium, msg_cholesterol, msg_fat, msg_protein,
     msg_sodium @ aug_high_bp, msg_sodium, msg_sweetness @ aug_moderately,
     msg_sweetness @ aug_diabetes, msg_calories @ aug_weight_loss, msg_calories]"
  by (simp add: msg_defs emoji_defs)

lemma replicate8: "replicate 8 x = [x, x, x, x, x, x, x, x]"
  by (simp add: eval_nat_numeral)

lemma less8:
  "(i::nat) < 8 \<Longrightarrow> i = 0 \<or> i = 1 \<or> i = 2 \<or> i = 3 \<or> i = 4 \<or> i = 5 \<or> i = 6 \<or> i = 7"
  by arith

lemma advise_none:
  "advise [False, False, False, False, False, False, False, False] ms = [msg_balanced]"
  by (auto simp: advise_def filter_empty_conv dest: set_zip_leftD)

lemma advise_single:
  assumes i: "i < 8" and l: "length ms = 8"
  shows "advise ((replicate 8 False)[i := True]) ms = [ms ! i]"
proof -
  from l obtain m0 m1 m2 m3 m4 m5 m6 m7 where ms: "ms = [m0, m1, m2, m3, m4, m5, m6, m7]"
    by (auto simp: length_Suc_conv eval_nat_numeral)
  from less8[OF i] show ?thesis
    unfolding ms replicate8 advise_def Let_def
    by (elim disjE) simp_all
qed

text \<open>A rule whose condition is false leaves none of its messages in the advice.\<close>

lemma silent_calories:
  "\<not> or_zero (dict_get n ''Calories'') > 500 \<Longrightarrow>
     silent [msg_calories, msg_calories @ aug_weight_loss] (give_recommendations n h)"
  using messages_distinct messages_distinct_rev
  by (simp add: silent_def mem_give_recommendations)

lemma silent_sweetness:
  "\<not> or_zero (dict_get n ''Sweetness (g)'') > 20 \<Longrightarrow>
     silent [msg_sweetness @ aug_diabetes, msg_sweetness @ aug_moderately] (give_recommendations n h)"
  using messages_distinct messages_distinct_rev
  by (simp add: silent_def mem_give_recommendations)

lemma silent_sodium:
  "\<not> or_zero (dict_get n ''Sodium (mg)'') > 1500 \<Longrightarrow>
     silent [msg_sodium, msg_sodium @ aug_high_bp] (give_recommendations n h)"
  using messages_distinct messages_distinct_rev
  by (simp add: silent_def mem_give_recommendations)

lemma silent_protein:
  "\<not> or_zero (dict_get n ''Proteins (g)'') > 15 \<Longrightarrow>
     silent [msg_protein] (give_recommendations n h)"
  using messages_distinct messages_distinct_rev
  by (simp add: silent_def mem_give_recommendations)

lemma silent_fat:
  "\<not> or_zero (dict_get n ''Total Fat (g)'') > 20 \<Longrightarrow>
     silent [msg_fat] (give_recommendations n h)"
  using messages_distinct messages_distinct_rev
  by (simp add: silent_def mem_give_recommendations)

lemma silent_cholesterol:
  "\<not> or_zero (dict_get n ''Cholesterol (mg)'') > 200 \<Longrightarrow>
     silent [msg_cholesterol] (give_recommendations n h)"
  using messages_distinct messages_distinct_rev
  by (simp add: silent_def mem_give_recommendations)

lemma silent_potassium:
  "\<not> or_zero (dict_get n ''Potassium (mg)'') > 400 \<Longrightarrow>
     silent [msg_potassium] (give_recommendations n h)"
  using messages_distinct messages_distinct_rev
  by (simp add: silent_def mem_give_recommendations)

lemma silent_carbs:
  "\<not> or_zero (dict_get n ''Total Carbohydrates (g)'') > 50 \<Longrightarrow>
     silent [msg_carbs] (give_recommendations n h)"
  using messages_distinct messages_distinct_rev
  by (simp add: silent_def mem_give_recommendations)

lemma not_above: "v \<in> {None, Some t} \<Longrightarrow> 0 \<le> t \<Longrightarrow> \<not> or_zero v > t"
  by (auto simp: or_zero_simps)

text \<open>
  C1. For the record with calories 600, sweetness 25, sodium 1600, protein 5, fat 10,
  cholesterol 50, potassium 100 and carbohydrates 20 and the three flags true,
  \<open>give_recommendations\<close> returns three messages: the calorie message with the weight-loss
  sentence, the sweetness message with the diabetes sentence, the sodium message with the
  blood-pressure sentence, in this order.
\<close>

theorem scenario_three_messages:
  "give_recommendations scenario (Some all_goals) =
     [msg_calories @ aug_weight_loss, msg_sweetness @ aug_diabetes, msg_sodium @ aug_high_bp] \<and>
   length (give_recommendations scenario (Some all_goals)) = 3"
  by (simp add: give_recommendations_def scenario_def all_goals_def dict_get_def or_zero_def
      truthy_def flag_def goals_or_empty_def)

text \<open>
  C3. Every threshold is strict. A field that equals the threshold of its rule (calories
  500, sweetness 20, sodium 1500, protein 15, fat 20, cholesterol 200, potassium 400,
  carbohydrates 50), or that is absent (\<open>None\<close> or a missing key, read as 0), does not fire
  the rule: no message of the rule is in the advice.
\<close>

theorem thresholds_strict:
  "(dict_get n ''Calories'' \<in> {None, Some 500} \<longrightarrow>
      silent [msg_calories, msg_calories @ aug_weight_loss] (give_recommendations n h)) \<and>
   (dict_get n ''Sweetness (g)'' \<in> {None, Some 20} \<longrightarrow>
      silent [msg_sweetness @ aug_diabetes, msg_sweetness @ aug_moderately]
        (give_recommendations n h)) \<and>
   (dict_get n ''Sodium (mg)'' \<in> {None, Some 1500} \<longrightarrow>
      silent [msg_sodium, msg_sodium @ aug_high_bp] (give_recommendations n h)) \<and>
   (dict_get n ''Proteins (g)'' \<in> {None, Some 15} \<longrightarrow>
      silent [msg_protein] (give_recommendations n h)) \<and>
   (dict_get n ''Total Fat (g)'' \<in> {None, Some 20} \<longrightarrow>
      silent [msg_fat] (give_recommendations n h)) \<and>
   (dict_get n ''Cholesterol (mg)'' \<in> {None, Some 200} \<longrightarrow>
      silent [msg_cholesterol] (give_recommendations n h)) \<and>
   (dict_get n ''Potassium (mg)'' \<in> {None, Some 400} \<longrightarrow>
      silent [msg_potassium] (give_recommendations n h)) \<and>
   (dict_get n ''Total Carbohydrates (g)'' \<in> {None, Some 50} \<longrightarrow>
      silent [msg_carbs] (give_recommendations n h))"
proof (intro conjI impI)
  assume "dict_get n ''Calories'' \<in> {None, Some 500}"
  then show "silent [msg_calories, msg_calories @ aug_weight_loss] (give_recommendations n h)"
    by (intro silent_calories not_above) simp_all
next
  assume "dict_get n ''Sweetness (g)'' \<in> {None, Some 20}"
  then show "silent [msg_sweetness @ aug_diabetes, msg_sweetness @ aug_moderately]
      (give_recommendations n h)"
    by (intro silent_sweetness not_above) simp_all
next
  assume "dict_get n ''Sodium (mg)'' \<in> {None, Some 1500}"
  then show "silent [msg_sodium, msg_sodium @ aug_high_bp] (give_recommendations n h)"
    by (intro silent_sodium not_above) simp_all
next
  assume "dict_get n ''Proteins (g)'' \<in> {None, Some 15}"
  then show "silent [msg_protein] (give_recommendations n h)"
    by (intro silent_protein not_above) simp_all
next
  assume "dict_get n ''Total Fat (g)'' \<in> {None, Some 20}"
  then show "silent [msg_fat] (give_recommendations n h)"
    by (intro silent_fat not_above) simp_all
next
  assume "dict_get n ''Cholesterol (mg)'' \<in> {None, Some 200}"
  then show "silent [msg_cholesterol] (give_recommendations n h)"
    by (intro silent_cholesterol not_above) simp_all
next
  assume "dict_get n ''Potassium (mg)'' \<in> {None, Some 400}"
  then show "silent [msg_potassium] (give_recommendations n h)"
    by (intro silent_potassium not_above) simp_all
next
  assume "dict_get n ''Total Carbohydrates (g)'' \<in> {None, Some 50}"
  then show "silent [msg_carbs] (give_recommendations n h)"
    by (intro silent_carbs not_above) simp_all
qed

theorem thresholds_strict_witness:
  "give_recommendations at_thresholds (Some all_goals) = [msg_balanced] \<and>
   silent [msg_calories, msg_calories @ aug_weight_loss]
     (give_recommendations at_thresholds (Some all_goals)) \<and>
   silent [msg_sweetness @ aug_diabetes, msg_sweetness @ aug_moderately]
     (give_recommendations at_thresholds (Some all_goals)) \<and>
   silent [msg_sodium, msg_sodium @ aug_high_bp]
     (give_recommendations at_thresholds (Some all_goals)) \<and>
   silent [msg_protein] (give_recommendations at_thresholds (Some all_goals)) \<and>
   silent [msg_fat] (give_recommendations at_thresholds (Some all_goals)) \<and>
   silent [msg_cholesterol] (give_recommendations at_thresholds (Some all_goals)) \<and>
   silent [msg_potassium] (give_recommendations at_thresholds (Some all_goals)) \<and>
   silent [msg_carbs] (give_recommendations at_thresholds (Some all_goals))"
proof -
  have fields:
    "dict_get at_thresholds ''Calories'' \<in> {None, Some 500}"
    "dict_get at_thresholds ''Sweetness (g)'' \<in> {None, Some 20}"
    "dict_get at_thresholds ''Sodium (mg)'' \<in> {None, Some 1500}"
    "dict_get at_thresholds ''Proteins (g)'' \<in> {None, Some 15}"
    "dict_get at_thresholds ''Total Fat (g)'' \<in> {None, Some 20}"
    "dict_get at_thresholds ''Cholesterol (mg)'' \<in> {None, Some 200}"
    "dict_get at_thresholds ''Potassium (mg)'' \<in> {None, Some 400}"
    "dict_get at_thresholds ''Total Carbohydrates (g)'' \<in> {None, Some 50}"
    by (simp_all add: at_thresholds_def dict_get_def)
  have out: "give_recommendations at_thresholds (Some all_goals) = [msg_balanced]"
    by (simp add: give_recommendations_def at_thresholds_def dict_get_def or_zero_def truthy_def)
  from fields thresholds_strict[of at_thresholds "Some all_goals"] out
  show ?thesis by blast
qed

text \<open>
  C4. When none of the eight rule conditions holds, the advice is the fallback message
  alone. When exactly one condition holds, the rule at position \<open>i\<close> of the eight, the advice
  is the message of that rule alone, without the fallback.
\<close>

theorem fallback_or_single_message:
  "(rule_conditions n = replicate 8 False \<longrightarrow> give_recommendations n h = [msg_balanced]) \<and>
   (i < 8 \<and> rule_conditions n' = (replicate 8 False)[i := True] \<longrightarrow>
      give_recommendations n' h' = [rule_messages h' ! i] \<and>
      length (give_recommendations n' h') = 1 \<and>
      msg_balanced \<notin> set (give_recommendations n' h'))"
proof (intro conjI impI)
  assume "rule_conditions n = replicate 8 False"
  then show "give_recommendations n h = [msg_balanced]"
    by (simp add: give_recommendations_advise replicate8 advise_none)
next
  assume a: "i < 8 \<and> rule_conditions n' = (replicate 8 False)[i := True]"
  have l: "length (rule_messages h') = 8"
    by (simp add: rule_messages_def)
  with a show single: "give_recommendations n' h' = [rule_messages h' ! i]"
    by (simp add: give_recommendations_advise advise_single)
  then show "length (give_recommendations n' h') = 1"
    by simp
  have "msg_balanced \<notin> set (rule_messages h')"
    using messages_distinct_rev by (simp add: rule_messages_def)
  with a l have "rule_messages h' ! i \<noteq> msg_balanced"
    by (metis nth_mem)
  with single show "msg_balanced \<notin> set (give_recommendations n' h')"
    by simp
qed

theorem fallback_or_single_message_witness:
  "rule_conditions at_thresholds = replicate 8 False \<and>
   give_recommendations at_thresholds None = [msg_balanced] \<and>
   rule_conditions protein_only = (replicate 8 False)[3 := True] \<and>
   give_recommendations protein_only (Some all_goals) = [msg_protein]"
proof -
  have none: "rule_conditions at_thresholds = replicate 8 False"
    by (simp add: rule_conditions_def at_thresholds_def dict_get_def or_zero_def truthy_def
        replicate8)
  have one: "(3::nat) < 8 \<and> rule_conditions protein_only = (replicate 8 False)[3 := True]"
    by (simp add: rule_conditions_def protein_only_def dict_get_def or_zero_def truthy_def
        replicate8)
  have msg: "rule_messages (Some all_goals) ! 3 = msg_protein"
    by (simp add: rule_messages_def)
  from none one msg
    fallback_or_single_message[of at_thresholds None 3 protein_only "Some all_goals"]
  show ?thesis by simp
qed

text \<open>
  C5. For a record with calories above 500: when the weight-loss flag is false, and when
  the flags are omitted, the advice contains the calorie message without the weight-loss
  sentence; when the flag is true it contains the calorie message followed by that
  sentence.
\<close>

theorem calories_weight_loss_forms:
  "dict_get n ''Calories'' = Some c \<and> c > 500 \<longrightarrow>
     (\<not> flag (goals_or_empty h) ''weight_loss'' \<longrightarrow>
        msg_calories \<in> set (give_recommendations n h) \<and>
        msg_calories @ aug_weight_loss \<notin> set (give_recommendations n h)) \<and>
     (flag (goals_or_empty h') ''weight_loss'' \<longrightarrow>
        msg_calories @ aug_weight_loss \<in> set (give_recommendations n h') \<and>
        msg_calories \<notin> set (give_recommendations n h')) \<and>
     msg_calories \<in> set (give_recommendations n None) \<and>
     msg_calories @ aug_weight_loss \<notin> set (give_recommendations n None)"
proof (intro impI)
  assume a: "dict_get n ''Calories'' = Some c \<and> c > 500"
  then have c: "or_zero (dict_get n ''Calories'') > 500"
    by (simp add: or_zero_simps)
  have none: "\<not> flag (goals_or_empty None) ''weight_loss''"
    by (simp add: flag_def goals_or_empty_def)
  have base: "msg_calories \<in> set (give_recommendations n g) \<and>
      msg_calories @ aug_weight_loss \<notin> set (give_recommendations n g)"
    if "\<not> flag (goals_or_empty g) ''weight_loss''" for g
    using that c messages_distinct
    by (simp add: mem_give_recommendations)
  have aug: "msg_calories @ aug_weight_loss \<in> set (give_recommendations n g) \<and>
      msg_calories \<notin> set (give_recommendations n g)"
    if "flag (goals_or_empty g) ''weight_loss''" for g
    using that c messages_distinct
    by (simp add: mem_give_recommendations)
  from base[of h] aug[of h'] base[OF none]
  show "(\<not> flag (goals_or_empty h) ''weight_loss'' \<longrightarrow>
        msg_calories \<in> set (give_recommendations n h) \<and>
        msg_calories @ aug_weight_loss \<notin> set (give_recommendations n h)) \<and>
     (flag (goals_or_empty h') ''weight_loss'' \<longrightarrow>
        msg_calories @ aug_weight_loss \<in> set (give_recommendations n h') \<and>
        msg_calories \<notin> set (give_recommendations n h')) \<and>
     msg_calories \<in> set (give_recommendations n None) \<and>
     msg_calories @ aug_weight_loss \<notin> set (give_recommendations n None)"
    by blast
qed

theorem calories_weight_loss_forms_witness:
  "dict_get scenario ''Calories'' = Some 600 \<and> (600::rat) > 500 \<and>
   \<not> flag (goals_or_empty (Some no_goals)) ''weight_loss'' \<and>
   flag (goals_or_empty (Some all_goals)) ''weight_loss'' \<and>
   msg_calories \<in> set (give_recommendations scenario (Some no_goals)) \<and>
   msg_calories @ aug_weight_loss \<notin> set (give_recommendations scenario (Some no_goals)) \<and>
   msg_calories @ aug_weight_loss \<in> set (give_recommendations scenario (Some all_goals)) \<and>
   msg_calories \<notin> set (give_recommendations scenario (Some all_goals)) \<and>
   msg_calories \<in> set (give_recommendations scenario None)"
proof -
  have cal: "dict_get scenario ''Calories'' = Some 600 \<and> (600::rat) > 500"
    by (simp add: scenario_def dict_get_def)
  have off: "\<not> flag (goals_or_empty (Some no_goals)) ''weight_loss''"
    by (simp add: flag_def goals_or_empty_def no_goals_def)
  have on: "flag (goals_or_empty (Some all_goals)) ''weight_loss''"
    by (simp add: flag_def goals_or_empty_def all_goals_def)
  from cal off on
    calories_weight_loss_forms[of scenario 600 "Some no_goals" "Some all_goals"]
  show ?thesis by blast
qed

text \<open>
  C10. The truth test in the potassium rule is redundant: for every number, and so for
  every potassium value after an absent one is read as 0, the condition of the code holds
  exactly when the plain comparison with 400 holds, and the function returns the same
  advice as the variant with the uniform rule.
\<close>

theorem potassium_guard_redundant:
  "(truthy p \<and> p > 400) = (p > 400) \<and>
   (truthy (or_zero v) \<and> or_zero v > 400) = (or_zero v > 400) \<and>
   give_recommendations n h = give_recommendations_uniform n h"
proof -
  have guard: "(truthy q \<and> q > 400) = (q > 400)" for q :: rat
    by (auto simp: truthy_def)
  have "give_recommendations n h = give_recommendations_uniform n h"
    unfolding give_recommendations_def give_recommendations_uniform_def guard ..
  with guard show ?thesis by simp
qed

section \<open>Properties of extract\_health\_goals\<close>

lemma starts_with_iff: "starts_with s p \<longleftrightarrow> (\<exists>v. s = p @ v)"
  by (induction s p rule: starts_with.induct) auto

text \<open>\<open>str_in\<close> decides whether the first string occurs in the second as a substring.\<close>

lemma str_in_iff: "str_in sub s \<longleftrightarrow> (\<exists>u v. s = u @ sub @ v)"
proof (induction s)
  case Nil
  then show ?case by auto
next
  case (Cons c cs)
  show ?case
  proof
    assume "str_in sub (c # cs)"
    then consider "starts_with (c # cs) sub" | "str_in sub cs" by auto
    then show "\<exists>u v. c # cs = u @ sub @ v"
    proof cases
      case 1
      then obtain v where "c # cs = sub @ v" by (auto simp: starts_with_iff)
      then have "c # cs = [] @ sub @ v" by simp
      then show ?thesis by blast
    next
      case 2
      with Cons obtain u v where "cs = u @ sub @ v" by auto
      then have "c # cs = (c # u) @ sub @ v" by simp
      then show ?thesis by blast
    qed
  next
    assume "\<exists>u v. c # cs = u @ sub @ v"
    then obtain u v where e: "c # cs = u @ sub @ v" by blast
    show "str_in sub (c # cs)"
    proof (cases u)
      case Nil
      with e have "starts_with (c # cs) sub" by (auto simp: starts_with_iff)
      then show ?thesis by simp
    next
      case (Cons a u')
      with e have "cs = u' @ sub @ v" by simp
      with Cons.IH have "str_in sub cs" by blast
      then show ?thesis by simp
    qed
  qed
qed

text \<open>The lower-case form of a character, by its code.\<close>

lemma upper_codes:
  "c \<in> set ''ABCDEFGHIJKLMNOPQRSTUVWXYZ'' \<longleftrightarrow> of_char c \<in> {65..90::nat}"
proof -
  have "c \<in> set ''ABCDEFGHIJKLMNOPQRSTUVWXYZ'' \<longleftrightarrow>
      (of_char c :: nat) \<in> of_char ` set ''ABCDEFGHIJKLMNOPQRSTUVWXYZ''"
    by (rule inj_image_mem_iff[OF inj_of_char, symmetric])
  also have "\<dots> \<longleftrightarrow> of_char c \<in> {65..90::nat}"
    by (simp only: list.set image_insert image_empty of_char_Char insert_iff empty_iff
        atLeastAtMost_iff) (simp, arith)
  finally show ?thesis .
qed

lemma lower_char_upper:
  "c \<in> set ''ABCDEFGHIJKLMNOPQRSTUVWXYZ'' \<Longrightarrow> of_char (lower_char c) = of_char c + (32::nat)"
  by (auto simp: lower_char_def)

lemma lower_char_other:
  "c \<notin> set ''ABCDEFGHIJKLMNOPQRSTUVWXYZ'' \<Longrightarrow> lower_char c = c"
  by (simp add: lower_char_def)

lemma lowers_to_iff: "lowers_to c k \<longleftrightarrow> k = lower_char c"
proof (cases "c \<in> set ''ABCDEFGHIJKLMNOPQRSTUVWXYZ''")
  case True
  then have "of_char k = of_char c + (32::nat) \<longleftrightarrow> k = lower_char c"
    using lower_char_upper[OF True] of_char_eq_iff[of k "lower_char c", where ?'a = nat] by metis
  with True show ?thesis
    unfolding lowers_to_def upper_codes[symmetric] by simp
next
  case False
  with lower_char_other[OF False] show ?thesis
    unfolding lowers_to_def upper_codes[symmetric] by simp
qed

lemma list_all2_lowers_to: "list_all2 lowers_to w k \<longleftrightarrow> lower w = k"
proof -
  have "lowers_to = (\<lambda>c d. lower_char c = d)"
    by (auto simp: fun_eq_iff lowers_to_iff)
  then have "list_all2 lowers_to w k \<longleftrightarrow> list_all2 (\<lambda>c d. lower_char c = d) w k"
    by simp
  also have "\<dots> \<longleftrightarrow> list_all2 (=) (map lower_char w) k"
    by (simp add: list_all2_map1)
  also have "\<dots> \<longleftrightarrow> lower w = k"
    by (simp add: list.rel_eq lower_def)
  finally show ?thesis .
qed

lemma lower_append: "lower (u @ v) = lower u @ lower v"
  by (simp add: lower_def)

lemma occurs_ignoring_case_iff:
  "occurs_ignoring_case keyword text \<longleftrightarrow> str_in keyword (lower text)"
proof
  assume "occurs_ignoring_case keyword text"
  then obtain u w v where "text = u @ w @ v" and "lower w = keyword"
    by (auto simp: occurs_ignoring_case_def list_all2_lowers_to)
  then have "lower text = lower u @ keyword @ lower v"
    by (simp add: lower_append)
  then show "str_in keyword (lower text)"
    unfolding str_in_iff by blast
next
  assume "str_in keyword (lower text)"
  then obtain u' v' where "map lower_char text = u' @ keyword @ v'"
    unfolding str_in_iff lower_def by blast
  then obtain u r where t1: "text = u @ r" and "map lower_char r = keyword @ v'"
    by (metis map_eq_append_conv)
  then obtain w v where t2: "r = w @ v" and "map lower_char w = keyword"
    by (metis map_eq_append_conv)
  then have "text = u @ w @ v \<and> list_all2 lowers_to w keyword"
    using t1 by (simp add: list_all2_lowers_to lower_def)
  then show "occurs_ignoring_case keyword text"
    unfolding occurs_ignoring_case_def by blast
qed

text \<open>
  C6. \<open>extract_health_goals\<close> lower-cases the prompt: every letter A to Z of the prompt is
  replaced by its lower-case form and every other character is kept. It sets each flag to
  whether one of its keywords occurs in the lower-cased text as a substring, that is,
  occurs in the prompt without regard to case: diabetes for "diabetes", weight\_loss for
  "weight loss" or "losing weight", high\_bp for "blood pressure", "bp" or "hypertension".
  On "I have diabetes and blood pressure issues" it returns diabetes true, weight\_loss
  false, high\_bp true; keywords written in capitals are found, and "bp" is found inside
  "BPM".
\<close>

theorem extract_health_goals_keywords:
  "list_all2 lowers_to prompt (lower prompt) \<and>
   extract_health_goals prompt =
     [''diabetes'' \<mapsto> occurs_ignoring_case ''diabetes'' prompt,
      ''weight_loss'' \<mapsto> occurs_ignoring_case ''weight loss'' prompt \<or>
                          occurs_ignoring_case ''losing weight'' prompt,
      ''high_bp'' \<mapsto> occurs_ignoring_case ''blood pressure'' prompt \<or>
                      occurs_ignoring_case ''bp'' prompt \<or>
                      occurs_ignoring_case ''hypertension'' prompt] \<and>
   extract_health_goals prompt =
     [''diabetes'' \<mapsto> (\<exists>u v. lower prompt = u @ ''diabetes'' @ v),
      ''weight_loss'' \<mapsto> (\<exists>u v. lower prompt = u @ ''weight loss'' @ v) \<or>
                          (\<exists>u v. lower prompt = u @ ''losing weight'' @ v),
      ''high_bp'' \<mapsto> (\<exists>u v. lower prompt = u @ ''blood pressure'' @ v) \<or>
                      (\<exists>u v. lower prompt = u @ ''bp'' @ v) \<or>
                      (\<exists>u v. lower prompt = u @ ''hypertension'' @ v)] \<and>
   lower ''@ABCDEFGHIJKLMNOPQRSTUVWXYZ[ abcdefghijklmnopqrstuvwxyz{ 0123456789'' =
     ''@abcdefghijklmnopqrstuvwxyz[ abcdefghijklmnopqrstuvwxyz{ 0123456789'' \<and>
   extract_health_goals ''I have diabetes and blood pressure issues'' =
     [''diabetes'' \<mapsto> True, ''weight_loss'' \<mapsto> False, ''high_bp'' \<mapsto> True] \<and>
   extract_health_goals ''DIABETES runs in my family; I am Losing Weight'' =
     [''diabetes'' \<mapsto> True, ''weight_loss'' \<mapsto> True, ''high_bp'' \<mapsto> False] \<and>
   extract_health_goals ''my resting heart rate is 60 BPM'' =
     [''diabetes'' \<mapsto> False, ''weight_loss'' \<mapsto> False, ''high_bp'' \<mapsto> True]"
proof (intro conjI)
  show "list_all2 lowers_to prompt (lower prompt)"
    by (simp add: list_all2_lowers_to)
  show "extract_health_goals prompt =
     [''diabetes'' \<mapsto> occurs_ignoring_case ''diabetes'' prompt,
      ''weight_loss'' \<mapsto> occurs_ignoring_case ''weight loss'' prompt \<or>
                          occurs_ignoring_case ''losing weight'' prompt,
      ''high_bp'' \<mapsto> occurs_ignoring_case ''blood pressure'' prompt \<or>
                      occurs_ignoring_case ''bp'' prompt \<or>
                      occurs_ignoring_case ''hypertension'' prompt]"
    unfolding extract_health_goals_def Let_def occurs_ignoring_case_iff ..
  show "extract_health_goals prompt =
     [''diabetes'' \<mapsto> (\<exists>u v. lower prompt = u @ ''diabetes'' @ v),
      ''weight_loss'' \<mapsto> (\<exists>u v. lower prompt = u @ ''weight loss'' @ v) \<or>
                          (\<exists>u v. lower prompt = u @ ''losing weight'' @ v),
      ''high_bp'' \<mapsto> (\<exists>u v. lower prompt = u @ ''blood pressure'' @ v) \<or>
                      (\<exists>u v. lower prompt = u @ ''bp'' @ v) \<or>
                      (\<exists>u v. lower prompt = u @ ''hypertension'' @ v)]"
    unfolding extract_health_goals_def Let_def str_in_iff ..
  show "lower ''@ABCDEFGHIJKLMNOPQRSTUVWXYZ[ abcdefghijklmnopqrstuvwxyz{ 0123456789'' =
     ''@abcdefghijklmnopqrstuvwxyz[ abcdefghijklmnopqrstuvwxyz{ 0123456789''"
    by (simp add: lower_def lower_char_def)
  show "extract_health_goals ''I have diabetes and blood pressure issues'' =
      [''diabetes'' \<mapsto> True, ''weight_loss'' \<mapsto> False, ''high_bp'' \<mapsto> True]"
    by (simp add: extract_health_goals_def lower_def lower_char_def)
  show "extract_health_goals ''DIABETES runs in my family; I am Losing Weight'' =
     [''diabetes'' \<mapsto> True, ''weight_loss'' \<mapsto> True, ''high_bp'' \<mapsto> False]"
    by (simp add: extract_health_goals_def lower_def lower_char_def)
  show "extract_health_goals ''my resting heart rate is 60 BPM'' =
     [''diabetes'' \<mapsto> False, ''weight_loss'' \<mapsto> False, ''high_bp'' \<mapsto> True]"
    by (simp add: extract_health_goals_def lower_def lower_char_def)
qed

section \<open>Properties of get\_nutrition\_info\<close>

text \<open>
  A response that is not a success, and a successful one whose dictionary has no key
  \<open>foods\<close>, make the function return \<open>None\<close>.
\<close>

lemma get_nutrition_info_failed_status:
  "status_code (post q) \<noteq> 200 \<Longrightarrow> get_nutrition_info post title q = Inr None"
  by (simp add: get_nutrition_info_def)

lemma get_nutrition_info_no_foods_key:
  "status_code (post q) = 200 \<Longrightarrow> json_body (post q) = Some (JObj items) \<Longrightarrow>
     ''foods'' \<notin> set (map fst items) \<Longrightarrow> get_nutrition_info post title q = Inr None"
  by (simp add: get_nutrition_info_def)

lemma get_nutrition_info_apple:
  "get_nutrition_info apple_response title ''apple pie'' =
     Inr (Some [(''Food'', JStr (title ''apple pie'')), (''Calories'', JNum 265),
       (''Proteins (g)'', JNull), (''Sweetness (g)'', JNum 0), (''Sodium (mg)'', JNum 327),
       (''Total Fat (g)'', JNull), (''Cholesterol (mg)'', JNull), (''Potassium (mg)'', JNull),
       (''Total Carbohydrates (g)'', JNull)])"
  by (simp add: get_nutrition_info_def apple_response_def items_get_def json_or_zero_def)

text \<open>
  C2. A successful response without matching food items should make
  \<open>get_nutrition_info\<close> return \<open>None\<close>. On status 200 with the body \<open>{"foods": []}\<close> the
  function instead raises IndexError at \<open>data['foods'][0]\<close>, for every query.
\<close>

theorem empty_foods_index_error:
  "get_nutrition_info no_foods_response title food_name = Inl IndexError \<and>
   get_nutrition_info no_foods_response title food_name \<noteq> Inr None"
  by (simp add: get_nutrition_info_def no_foods_response_def)

section \<open>Properties of analyze\_sentiment\<close>

lemmas label_defs =
  label_positive_def label_negative_def label_neutral_def
  smiling_face_def pensive_face_def neutral_face_def

text \<open>
  C7. The label follows the sign of the polarity score: it is the Positive label exactly
  when the score is above zero, the Negative label exactly when it is below zero, and the
  Neutral label exactly when it is zero. The label is a function of the score of the text,
  so the same text gets the same label each time.
\<close>

theorem analyze_sentiment_sign:
  "(analyze_sentiment polarity_of comment = label_positive \<longleftrightarrow> polarity_of comment > 0) \<and>
   (analyze_sentiment polarity_of comment = label_negative \<longleftrightarrow> polarity_of comment < 0) \<and>
   (analyze_sentiment polarity_of comment = label_neutral \<longleftrightarrow> polarity_of comment = 0)"
  by (auto simp: analyze_sentiment_def Let_def label_defs)

section \<open>Properties of the feedback file\<close>

lemma cell_at_reindex:
  "c \<in> set cols' \<Longrightarrow> cell_at cols' (reindex cols cols' row) c = cell_at cols row c"
  by (simp add: cell_at_def[of cols'] reindex_def map_of_zip_map)

lemma getitem_column_concat:
  assumes "c \<in> set (columns a) \<union> set (columns b)"
  shows "getitem_column (concat_frames a b) c =
     Inr (map (\<lambda>row. cell_at (columns a) row c) (rows a) @
          map (\<lambda>row. cell_at (columns b) row c) (rows b))"
proof -
  let ?cols = "columns a @ filter (\<lambda>c. c \<notin> set (columns a)) (columns b)"
  from assms have mem: "c \<in> set ?cols" by auto
  then show ?thesis
    by (simp add: getitem_column_def concat_frames_def Let_def cell_at_reindex o_def
        del: set_append)
qed

lemma count_of_value_counts:
  "count_of (Some (value_counts xs)) v = (if v = CNaN then 0 else count_list xs v)"
  by (simp add: count_of_def value_counts_def)

lemma count_of_None: "count_of None v = 0"
  by (simp add: count_of_def)

lemma sentiment_of_new_row:
  "cell_at [''Name'', ''Age'', ''Satisfaction'', ''Comment'', ''Sentiment'']
     [a, b, c, d, e] ''Sentiment'' = e"
  by (simp add: cell_at_def)





lemma analyze_sentiment_label:
  "CStr (analyze_sentiment polarity_of comment) \<in>
     set [CNaN, CStr label_positive, CStr label_negative, CStr label_neutral]"
  by (simp add: analyze_sentiment_def Let_def)

lemma read_cell_na_label:
  "c \<in> set [CNaN, CStr label_positive, CStr label_negative, CStr label_neutral] \<Longrightarrow>
     read_cell_na c = c"
  by (auto simp: read_cell_na_def default_na_values_def label_defs)

lemma cell_at_map:
  assumes "f CNaN = CNaN"
  shows "cell_at cols (map f row) c = f (cell_at cols row c)"
proof -
  have "map_of (zip cols (map f row)) c = map_option f (map_of (zip cols row) c)"
    by (induction cols row rule: list_induct2') simp_all
  then show ?thesis
    using assms by (simp add: cell_at_def split: option.split)
qed

lemma getitem_column_read_csv_na:
  assumes "labelled df"
  shows "getitem_column (read_csv_na (to_csv_cells df)) ''Sentiment'' =
     getitem_column df ''Sentiment''"
proof -
  have nan: "read_cell_na CNaN = CNaN"
    by (simp add: read_cell_na_def)
  from assms have col: "''Sentiment'' \<in> set (columns df)"
    by (auto simp: labelled_def getitem_column_def split: if_splits)
  with assms have cells: "\<forall>row \<in> set (rows df).
      cell_at (columns df) row ''Sentiment'' \<in>
        set [CNaN, CStr label_positive, CStr label_negative, CStr label_neutral]"
    by (simp add: labelled_def getitem_column_def list_all_iff)
  show ?thesis
    using col cells
    by (simp add: getitem_column_def read_csv_na_def to_csv_cells_def o_def
        cell_at_map[of read_cell_na, OF nan] read_cell_na_label del: list.set)
qed





text \<open>
  C8. After \<open>save_feedback\<close> the aggregate by sentiment counts the category of the new entry
  one higher than before and every other category as before. The file is absent or reads
  as a table whose Sentiment column holds labels (or NaN), as in every file that
  \<open>save_feedback\<close> writes, and the reader returns the Sentiment column of such a table as
  it was written; nothing is assumed of what the reader does to the other columns.
\<close>

theorem append_then_aggregate:
  "(\<forall>df. labelled df \<longrightarrow>
      getitem_column (read_csv (to_csv df)) ''Sentiment'' = getitem_column df ''Sentiment'') \<and>
   (feedback_file = None \<or> (\<exists>csv. feedback_file = Some csv \<and> labelled (read_csv csv))) \<longrightarrow>
   (\<exists>before after.
      show_sentiment_graph read_csv feedback_file = Inr before \<and>
      show_sentiment_graph read_csv
        (save_feedback read_csv to_csv polarity_of feedback_file
           user_name user_age satisfaction comment) = Inr (Some after) \<and>
      count_of (Some after) (CStr (analyze_sentiment polarity_of comment)) =
        count_of before (CStr (analyze_sentiment polarity_of comment)) + 1 \<and>
      (\<forall>label. label \<noteq> CStr (analyze_sentiment polarity_of comment) \<longrightarrow>
         count_of (Some after) label = count_of before label))"
proof (intro impI, elim conjE)
  assume reader: "\<forall>df. labelled df \<longrightarrow>
      getitem_column (read_csv (to_csv df)) ''Sentiment'' = getitem_column df ''Sentiment''"
  assume store: "feedback_file = None \<or>
    (\<exists>csv. feedback_file = Some csv \<and> labelled (read_csv csv))"
  let ?s = "CStr (analyze_sentiment polarity_of comment)"
  let ?new = "\<lparr>columns = [''Name'', ''Age'', ''Satisfaction'', ''Comment'', ''Sentiment''],
      rows = [[CStr user_name, CInt user_age, CInt satisfaction, CStr comment, ?s]]\<rparr>"
  let ?saved = "save_feedback read_csv to_csv polarity_of feedback_file
      user_name user_age satisfaction comment"
  from store show "\<exists>before after.
      show_sentiment_graph read_csv feedback_file = Inr before \<and>
      show_sentiment_graph read_csv ?saved = Inr (Some after) \<and>
      count_of (Some after) ?s = count_of before ?s + 1 \<and>
      (\<forall>label. label \<noteq> ?s \<longrightarrow> count_of (Some after) label = count_of before label)"
  proof
    assume absent: "feedback_file = None"
    have before: "show_sentiment_graph read_csv feedback_file = Inr None"
      by (simp add: absent show_sentiment_graph_def)
    have saved: "?saved = Some (to_csv ?new)"
      by (simp add: absent save_feedback_def Let_def)
    have new: "getitem_column ?new ''Sentiment'' = Inr [?s]"
      by (simp add: getitem_column_def sentiment_of_new_row)
    then have "labelled ?new"
      using analyze_sentiment_label[of polarity_of comment] by (simp add: labelled_def)
    with reader new have "getitem_column (read_csv (to_csv ?new)) ''Sentiment'' = Inr [?s]"
      by simp
    then have after: "show_sentiment_graph read_csv ?saved = Inr (Some (value_counts [?s]))"
      by (simp add: saved show_sentiment_graph_def Let_def)
    show ?thesis
      unfolding before after
      by (intro exI conjI refl) (auto simp: count_of_value_counts count_of_None)
  next
    assume "\<exists>csv. feedback_file = Some csv \<and> labelled (read_csv csv)"
    then obtain csv where present: "feedback_file = Some csv"
      and lab: "labelled (read_csv csv)" by blast
    let ?old = "map (\<lambda>row. cell_at (columns (read_csv csv)) row ''Sentiment'')
        (rows (read_csv csv))"
    let ?all = "concat_frames (read_csv csv) ?new"
    from lab have col: "''Sentiment'' \<in> set (columns (read_csv csv))"
      by (auto simp: labelled_def getitem_column_def split: if_splits)
    then have old: "getitem_column (read_csv csv) ''Sentiment'' = Inr ?old"
      by (simp add: getitem_column_def)
    have before: "show_sentiment_graph read_csv feedback_file = Inr (Some (value_counts ?old))"
      by (simp add: present show_sentiment_graph_def Let_def old)
    have saved: "?saved = Some (to_csv ?all)"
      by (simp add: present save_feedback_def Let_def)
    have all: "getitem_column ?all ''Sentiment'' = Inr (?old @ [?s])"
      using col by (simp add: getitem_column_concat sentiment_of_new_row)
    have "labelled ?all"
      using lab analyze_sentiment_label[of polarity_of comment]
      unfolding labelled_def all old by simp
    with reader all have "getitem_column (read_csv (to_csv ?all)) ''Sentiment'' = Inr (?old @ [?s])"
      by simp
    then have after: "show_sentiment_graph read_csv ?saved =
        Inr (Some (value_counts (?old @ [?s])))"
      by (simp add: saved show_sentiment_graph_def Let_def)
    show ?thesis
      unfolding before after
      by (intro exI conjI refl) (auto simp: count_of_value_counts)
  qed
qed

theorem append_then_aggregate_witness:
  "labelled (read_csv_na na_frame) \<and>
   columns (read_csv_na na_frame) = schema \<and>
   rows (read_csv_na na_frame) = [[CNaN, CInt 25, CInt 7, CStr ''good app'', CStr label_positive]] \<and>
   (\<exists>before after.
      show_sentiment_graph read_csv_na (Some na_frame) = Inr before \<and>
      show_sentiment_graph read_csv_na
        (save_feedback read_csv_na to_csv_cells toy_polarity (Some na_frame)
           ''Bob'' 41 2 ''bad advice'') = Inr (Some after) \<and>
      count_of (Some after) (CStr (analyze_sentiment toy_polarity ''bad advice'')) =
        count_of before (CStr (analyze_sentiment toy_polarity ''bad advice'')) + 1 \<and>
      (\<forall>label. label \<noteq> CStr (analyze_sentiment toy_polarity ''bad advice'') \<longrightarrow>
         count_of (Some after) label = count_of before label))"
proof -
  have reader: "\<forall>df. labelled df \<longrightarrow>
      getitem_column (read_csv_na (to_csv_cells df)) ''Sentiment'' =
      getitem_column df ''Sentiment''"
    by (simp add: getitem_column_read_csv_na)
  have rows: "rows (read_csv_na na_frame) =
      [[CNaN, CInt 25, CInt 7, CStr ''good app'', CStr label_positive]]"
    by (simp add: read_csv_na_def na_frame_def feedback_row_def na_submission_def
        read_cell_na_def default_na_values_def analyze_sentiment_def toy_polarity_def label_defs)
  have cols: "columns (read_csv_na na_frame) = schema"
    by (simp add: read_csv_na_def na_frame_def)
  have lab: "labelled (read_csv_na na_frame)"
    by (simp add: labelled_def getitem_column_def cols rows) (simp add: schema_def cell_at_def)
  from reader lab rows cols
    append_then_aggregate[of read_csv_na to_csv_cells "Some na_frame" toy_polarity
      "''Bob''" 41 2 "''bad advice''"]
  show ?thesis by blast
qed




end
